theory Spec2Isabelle
  imports Main "HOL-Library.Word"
begin

section \<open>The DMX512 drivers of dmx.py\<close>

text \<open>
  The module \<^verbatim>\<open>dmx.py\<close> holds two classes, \<^verbatim>\<open>DMX_TX\<close> and \<^verbatim>\<open>DMX_RX\<close>. Each owns a
  \<^verbatim>\<open>bytearray\<close> called \<^verbatim>\<open>channels\<close>, a PIO state machine and a DMA channel. The
  classes are embedded as records, their methods as functions from the object to the
  updated object, and every Python exception as a value of \<open>py_error\<close>.
\<close>

subsection \<open>Exceptions\<close>

datatype py_error = ValueError | IndexError | AttributeError | OverflowError

subsection \<open>The bytearray\<close>

text \<open>
  A \<^verbatim>\<open>bytearray\<close> is a list of integers, each meant to lie in \<open>0..255\<close>. Indexing
  follows Python: a negative index counts from the end, and an index outside
  \<open>-len..len-1\<close> raises. The drivers run under MicroPython on the RP2040 (they import
  \<^verbatim>\<open>rp2\<close>, \<^verbatim>\<open>machine\<close> and \<^verbatim>\<open>uctypes\<close>). There the index is first converted to a
  signed machine word of 32 bits, and an index below \<open>-2^31\<close> or from \<open>2^31\<close> on
  raises \<^verbatim>\<open>OverflowError\<close>; any other index outside the range raises \<^verbatim>\<open>IndexError\<close>.
  The item store keeps the low eight bits of the value stored.

  A buffer has fewer than \<open>2^31\<close> bytes, so an index inside the range always fits the
  machine word. \<open>py_index\<close> therefore tests the range first and tells the two errors
  apart afterwards; \<open>py_index_machine_word\<close> below shows that for every list of at
  most \<open>2^31\<close> elements this is the same as converting first.
\<close>

definition py_range :: "int \<Rightarrow> int list" where
  "py_range n = map int [0..<nat n]"

definition byte_ok :: "int \<Rightarrow> bool" where
  "byte_ok b = (0 \<le> b \<and> b \<le> 255)"

definition bytes_ok :: "int list \<Rightarrow> bool" where
  "bytes_ok bs = list_all byte_ok bs"

definition py_index :: "'a list \<Rightarrow> int \<Rightarrow> py_error + nat" where
  "py_index xs i =
     (let n = int (length xs); j = (if i < 0 then i + n else i)
      in if 0 \<le> j \<and> j < n then Inr (nat j)
         else if i < - (2 ^ 31) \<or> 2 ^ 31 \<le> i then Inl OverflowError
         else Inl IndexError)"

definition bytearray_get :: "int list \<Rightarrow> int \<Rightarrow> py_error + int" where
  "bytearray_get bs i =
     (case py_index bs i of Inl e \<Rightarrow> Inl e | Inr j \<Rightarrow> Inr (bs ! j))"

definition bytearray_set :: "int list \<Rightarrow> int \<Rightarrow> int \<Rightarrow> py_error + int list" where
  "bytearray_set bs i v =
     (case py_index bs i of Inl e \<Rightarrow> Inl e | Inr j \<Rightarrow> Inr (bs[j := v mod 256]))"

subsection \<open>The hardware objects\<close>

datatype pin_mode = PIN_IN | PIN_OUT

datatype pin_pull = PULL_UP

record pin =
  pin_id   :: int
  pin_mode :: pin_mode
  pin_pull :: "pin_pull option"

definition Pin :: "int \<Rightarrow> pin_mode \<Rightarrow> pin_pull option \<Rightarrow> pin" where
  "Pin n m p = \<lparr>pin_id = n, pin_mode = m, pin_pull = p\<rparr>"

datatype pio_program = dmx_out | dmx_in

text \<open>
  \<^verbatim>\<open>rp2.StateMachine\<close>: the constructor's arguments, whether the machine is active, how
  often \<^verbatim>\<open>restart()\<close> was called, the words handed to \<^verbatim>\<open>put()\<close> and whether an
  interrupt handler is registered.
\<close>

record state_machine =
  sm_id           :: int
  sm_prog         :: pio_program
  sm_freq         :: int
  sm_in_base      :: "pin option"
  sm_jmp_pin      :: "pin option"
  sm_sideset_base :: "pin option"
  sm_out_base     :: "pin option"
  sm_active       :: bool
  sm_restarts     :: nat
  sm_put          :: "int list"
  sm_irq          :: bool

definition StateMachine ::
  "int \<Rightarrow> pio_program \<Rightarrow> int \<Rightarrow> pin option \<Rightarrow> pin option \<Rightarrow> pin option \<Rightarrow> pin option
     \<Rightarrow> state_machine" where
  "StateMachine n prog freq in_base jmp sideset out_base =
     \<lparr>sm_id = n, sm_prog = prog, sm_freq = freq, sm_in_base = in_base, sm_jmp_pin = jmp,
      sm_sideset_base = sideset, sm_out_base = out_base, sm_active = False,
      sm_restarts = 0, sm_put = [], sm_irq = False\<rparr>"

definition sm_set_active :: "bool \<Rightarrow> state_machine \<Rightarrow> state_machine" where
  "sm_set_active b m = m\<lparr>sm_active := b\<rparr>"

definition sm_restart :: "state_machine \<Rightarrow> state_machine" where
  "sm_restart m = m\<lparr>sm_restarts := Suc (sm_restarts m)\<rparr>"

definition sm_put_word :: "int \<Rightarrow> state_machine \<Rightarrow> state_machine" where
  "sm_put_word v m = m\<lparr>sm_put := sm_put m @ [v]\<rparr>"

definition sm_set_irq :: "state_machine \<Rightarrow> state_machine" where
  "sm_set_irq m = m\<lparr>sm_irq := True\<rparr>"

text \<open>
  The address of the transmit queue of a state machine. The RP2040 has two PIO blocks
  of four state machines each, and \<^verbatim>\<open>rp2.StateMachine\<close> numbers them 0 to 3 on PIO0 and
  4 to 7 on PIO1. The register map in the RP2040 datasheet, which the header of dmx.py
  cites, has PIO0 at \<^verbatim>\<open>0x50200000\<close>, PIO1 at \<^verbatim>\<open>0x50300000\<close> and the transmit queue
  of the \<open>k\<close>-th state machine of a block at offset \<open>0x10 + 4k\<close>. The comments of dmx.py
  agree for the one address it uses: \<^verbatim>\<open>0x50200010\<close> is "hard coded as PIO0" and its
  transfer request 0 is "PIO0 TX0".
\<close>

definition sm_txf_addr :: "int \<Rightarrow> int" where
  "sm_txf_addr n = (if n < 4 then 0x50200000 else 0x50300000) + 0x10 + 4 * (n mod 4)"

datatype treq = TREQ_number int | TREQ_PIO1_RX

text \<open>
  Modelled from the spec: the module \<^verbatim>\<open>dma\<close> (class \<^verbatim>\<open>DmaChannel\<close>) is imported by
  dmx.py and is not among the sources. The spec's bulk transfer engine has
  \<open>configure(source_increment, dest_increment, trigger_source)\<close> and
  \<open>arm(source_addr, dest_addr, count, trigger_on_start)\<close>. A channel is the record of
  what it was last programmed with; \<open>dma_arms\<close> counts the calls of
  \<^verbatim>\<open>SetChannelData\<close>.
\<close>

record dma_channel =
  dma_id         :: int
  dma_read_incr  :: bool
  dma_write_incr :: bool
  dma_treq       :: "treq option"
  dma_read_addr  :: int
  dma_write_addr :: int
  dma_count      :: int
  dma_trigger    :: bool
  dma_arms       :: nat

definition DmaChannel :: "int \<Rightarrow> dma_channel" where
  "DmaChannel n =
     \<lparr>dma_id = n, dma_read_incr = True, dma_write_incr = True, dma_treq = None,
      dma_read_addr = 0, dma_write_addr = 0, dma_count = 0, dma_trigger = False,
      dma_arms = 0\<rparr>"

definition NoWriteIncr :: "dma_channel \<Rightarrow> dma_channel" where
  "NoWriteIncr c = c\<lparr>dma_write_incr := False\<rparr>"

definition NoReadIncr :: "dma_channel \<Rightarrow> dma_channel" where
  "NoReadIncr c = c\<lparr>dma_read_incr := False\<rparr>"

definition SetTREQ :: "treq \<Rightarrow> dma_channel \<Rightarrow> dma_channel" where
  "SetTREQ r c = c\<lparr>dma_treq := Some r\<rparr>"

definition SetChannelData :: "int \<Rightarrow> int \<Rightarrow> int \<Rightarrow> bool \<Rightarrow> dma_channel \<Rightarrow> dma_channel" where
  "SetChannelData src dst n trig c =
     c\<lparr>dma_read_addr := src, dma_write_addr := dst, dma_count := n, dma_trigger := trig,
       dma_arms := Suc (dma_arms c)\<rparr>"

text \<open>\<^verbatim>\<open>machine.Timer\<close>: its period and whether it is still armed.\<close>

record timer =
  timer_period  :: int
  timer_running :: bool

definition Timer :: "int \<Rightarrow> timer" where
  "Timer period = \<lparr>timer_period = period, timer_running = True\<rparr>"

definition deinit :: "timer \<Rightarrow> timer" where
  "deinit tm = tm\<lparr>timer_running := False\<rparr>"

subsection \<open>The transmitter, class DMX_TX\<close>

text \<open>
  The attributes \<^verbatim>\<open>timer_count\<close> and \<^verbatim>\<open>t\<close> are first assigned in \<^verbatim>\<open>start\<close>; until
  then they do not exist, which is the value \<open>None\<close>. \<open>tx_channels_addr\<close> is what
  \<^verbatim>\<open>addressof(self.channels)\<close> returns: the address the allocator gave the buffer,
  a parameter of the construction.
\<close>

record dmx_tx =
  tx_channels      :: "int list"
  tx_channels_addr :: int
  tx_pin           :: pin
  tx_sm            :: state_machine
  tx_dma           :: dma_channel
  tx_timer_count   :: "int option"
  tx_t             :: "timer option"

definition DMX_TX_init :: "int \<Rightarrow> int \<Rightarrow> int \<Rightarrow> int \<Rightarrow> int \<Rightarrow> py_error + dmx_tx" where
  "DMX_TX_init addr pin_no universe_size statemachine dmachannel =
     (if universe_size < 1 \<or> universe_size > 512 then Inl ValueError
      else
        let p = Pin pin_no PIN_OUT (Some PULL_UP)
        in Inr \<lparr>tx_channels = map (\<lambda>_. 0) (py_range (universe_size + 1)),
                tx_channels_addr = addr,
                tx_pin = p,
                tx_sm = StateMachine statemachine dmx_out 1000000 None None (Some p) (Some p),
                tx_dma = SetTREQ (TREQ_number 0) (NoWriteIncr (DmaChannel dmachannel)),
                tx_timer_count = None,
                tx_t = None\<rparr>)"

definition DMX_TX_start :: "int \<Rightarrow> dmx_tx \<Rightarrow> dmx_tx" where
  "DMX_TX_start period tx = tx\<lparr>tx_timer_count := Some 0, tx_t := Some (Timer period)\<rparr>"

text \<open>
  A method that can raise returns \<open>Inl (e, obj)\<close>: the exception and the object as the
  statements before the raise left it.
\<close>

definition DMX_TX_pause :: "dmx_tx \<Rightarrow> (py_error \<times> dmx_tx) + dmx_tx" where
  "DMX_TX_pause tx =
     (case tx_t tx of
        None \<Rightarrow> Inl (AttributeError, tx)
      | Some tm \<Rightarrow> Inr (tx\<lparr>tx_t := Some (deinit tm), tx_sm := sm_set_active False (tx_sm tx)\<rparr>))"

definition DMX_TX_restart :: "dmx_tx \<Rightarrow> (py_error \<times> dmx_tx) + dmx_tx" where
  "DMX_TX_restart tx =
     (let tx1 = tx\<lparr>tx_sm := sm_set_active True (tx_sm tx)\<rparr>;
          tx2 = tx1\<lparr>tx_sm := sm_restart (tx_sm tx1)\<rparr>;
          tx3 = tx2\<lparr>tx_dma := SetChannelData (tx_channels_addr tx2) 0x50200010
                                  (int (length (tx_channels tx2))) True (tx_dma tx2)\<rparr>
      in case tx_timer_count tx3 of
           None \<Rightarrow> Inl (AttributeError, tx3)
         | Some n \<Rightarrow> Inr (tx3\<lparr>tx_timer_count := Some (n + 1)\<rparr>))"

subsection \<open>The receiver, class DMX_RX\<close>

record dmx_rx =
  rx_channels        :: "int list"
  rx_channels_addr   :: int
  rx_pin             :: pin
  rx_debugpin        :: pin
  rx_sm              :: state_machine
  rx_frames_received :: int
  rx_dma             :: dma_channel

text \<open>The constructor of the receiver has no statement that raises.\<close>

definition DMX_RX_init :: "int \<Rightarrow> int \<Rightarrow> int \<Rightarrow> int \<Rightarrow> int \<Rightarrow> py_error + dmx_rx" where
  "DMX_RX_init addr pin_no statemachine dmachannel num_channels =
     (let p = Pin pin_no PIN_IN None;
          dbg = Pin 12 PIN_OUT (Some PULL_UP)
      in Inr \<lparr>rx_channels = map (\<lambda>_. 0) (py_range (num_channels + 1)),
              rx_channels_addr = addr,
              rx_pin = p,
              rx_debugpin = dbg,
              rx_sm = sm_set_irq
                        (StateMachine statemachine dmx_in 1000000 (Some p) (Some p) (Some dbg) None),
              rx_frames_received = 0,
              rx_dma = SetTREQ TREQ_PIO1_RX (NoReadIncr (DmaChannel dmachannel))\<rparr>)"

definition DMX_RX_start :: "dmx_rx \<Rightarrow> dmx_rx" where
  "DMX_RX_start rx =
     (let rx1 = rx\<lparr>rx_dma := SetChannelData 0x50200027 (rx_channels_addr rx)
                                (int (length (rx_channels rx))) True (rx_dma rx)\<rparr>;
          rx2 = rx1\<lparr>rx_sm := sm_restart (rx_sm rx1)\<rparr>;
          rx3 = rx2\<lparr>rx_sm := sm_put_word (int (length (rx_channels rx2)) - 1) (rx_sm rx2)\<rparr>
      in rx3\<lparr>rx_sm := sm_set_active True (rx_sm rx3)\<rparr>)"

definition DMX_RX_pause :: "dmx_rx \<Rightarrow> dmx_rx" where
  "DMX_RX_pause rx = rx\<lparr>rx_sm := sm_set_active False (rx_sm rx)\<rparr>"

definition IRQ_from_PIO :: "dmx_rx \<Rightarrow> dmx_rx" where
  "IRQ_from_PIO rx =
     (let rx1 = rx\<lparr>rx_dma := SetChannelData 0x50200027 (rx_channels_addr rx)
                                (int (length (rx_channels rx))) True (rx_dma rx)\<rparr>
      in rx1\<lparr>rx_frames_received := rx_frames_received rx1 + 1\<rparr>)"

subsection \<open>The diagnostic dump\<close>

text \<open>
  \<open>str_nat\<close> is Python's \<^verbatim>\<open>str\<close> on a number that is not negative, \<open>str_int\<close> the same
  on any integer; \<open>fmt_03\<close> is the format \<^verbatim>\<open>{chan:03}\<close> and \<open>fmt_3\<close> the format
  \<^verbatim>\<open>{value:3}\<close>. Both loops of \<^verbatim>\<open>__str__\<close> run over \<^verbatim>\<open>range(len(self.channels))\<close>, so
  the index they read is always inside the buffer.
\<close>

fun str_nat :: "nat \<Rightarrow> string" where
  "str_nat n =
     (if n < 10 then [''0123456789'' ! n]
      else str_nat (n div 10) @ [''0123456789'' ! (n mod 10)])"

definition str_int :: "int \<Rightarrow> string" where
  "str_int i = (if i < 0 then ''-'' @ str_nat (nat (- i)) else str_nat (nat i))"

definition fmt_03 :: "nat \<Rightarrow> string" where
  "fmt_03 n = replicate (3 - length (str_nat n)) (CHR ''0'') @ str_nat n"

definition fmt_3 :: "int \<Rightarrow> string" where
  "fmt_3 i = replicate (3 - length (str_int i)) (CHR '' '') @ str_int i"

definition nl :: string where
  "nl = [CHR 0x0A]"

definition tx_str_step :: "int list \<Rightarrow> string \<Rightarrow> nat \<Rightarrow> string" where
  "tx_str_step chs result chan =
     (let r1 = (if chan mod 20 = 1 then result @ nl @ fmt_03 chan @ '':'' else result);
          r2 = (if chan mod 5 = 1 then r1 @ ''  '' else r1);
          r3 = (if chan = 0 then ''Start code: '' @ str_int (chs ! chan)
                else r2 @ '' '' @ fmt_3 (chs ! chan))
      in if chan mod 100 = 0 then r3 @ nl else r3)"

definition DMX_TX_str :: "dmx_tx \<Rightarrow> string" where
  "DMX_TX_str tx =
     foldl (tx_str_step (tx_channels tx)) [] [0..<length (tx_channels tx)] @ nl"

definition rx_str_step :: "int list \<Rightarrow> string \<Rightarrow> nat \<Rightarrow> string" where
  "rx_str_step chs result chan =
     (let r1 = (if chan mod 20 = 1 then result @ nl @ fmt_03 chan @ '':'' else result);
          r2 = (if chan mod 5 = 1 then r1 @ ''  '' else r1);
          r3 = (if chan = 0 then ''Start code: '' @ str_int (chs ! chan)
                else r2 @ fmt_3 (chs ! chan))
      in if chan mod 100 = 0 then r3 @ nl else r3)"

definition DMX_RX_str :: "dmx_rx \<Rightarrow> string" where
  "DMX_RX_str rx =
     foldl (rx_str_step (rx_channels rx)) [] [0..<length (rx_channels rx)] @ nl"

subsection \<open>Sequences of operations\<close>

text \<open>
  What an application and the interrupts can do to a driver, one operation at a time.
  A call that raises leaves the object as it was at the raise, and the next operation
  goes on from there. Reading a channel and formatting the dump do not change the
  object. \<open>TxTick\<close> is one call of the timer's callback \<^verbatim>\<open>restart\<close>, \<open>RxIRQ\<close> one call
  of the handler \<^verbatim>\<open>IRQ_from_PIO\<close>.
\<close>

datatype tx_op = TxStart int | TxPause | TxTick | TxRead int | TxWrite int int | TxStr

definition tx_write :: "int \<Rightarrow> int \<Rightarrow> dmx_tx \<Rightarrow> dmx_tx" where
  "tx_write i v tx =
     (case bytearray_set (tx_channels tx) i v of
        Inl e \<Rightarrow> tx
      | Inr bs \<Rightarrow> tx\<lparr>tx_channels := bs\<rparr>)"

definition after :: "('e \<times> 's) + 's \<Rightarrow> 's" where
  "after r = (case r of Inl (e, s) \<Rightarrow> s | Inr s \<Rightarrow> s)"

fun tx_exec :: "dmx_tx \<Rightarrow> tx_op \<Rightarrow> dmx_tx" where
  "tx_exec tx (TxStart period) = DMX_TX_start period tx"
| "tx_exec tx TxPause = after (DMX_TX_pause tx)"
| "tx_exec tx TxTick = after (DMX_TX_restart tx)"
| "tx_exec tx (TxRead i) = tx"
| "tx_exec tx (TxWrite i v) = tx_write i v tx"
| "tx_exec tx TxStr = tx"

definition tx_run :: "tx_op list \<Rightarrow> dmx_tx \<Rightarrow> dmx_tx" where
  "tx_run ops tx = foldl tx_exec tx ops"

fun is_TxStart :: "tx_op \<Rightarrow> bool" where
  "is_TxStart (TxStart period) = True"
| "is_TxStart _ = False"

definition never_started :: "tx_op list \<Rightarrow> bool" where
  "never_started ops = (filter is_TxStart ops = [])"

text \<open>
  Modelled from the spec: the transfer engine's store of one received byte is done by
  the hardware that the absent module \<^verbatim>\<open>dma\<close> programs. \<open>RxDmaByte off b\<close> stores the
  eight-bit value \<open>b\<close> at offset \<open>off\<close> from the buffer's base; a store beyond the
  buffer does not touch it. A read between two such stores is a read in the middle of
  an update.
\<close>

datatype rx_op =
  RxStart | RxPause | RxIRQ | RxRead int | RxWrite int int | RxStr | RxDmaByte nat "8 word"

definition rx_write :: "int \<Rightarrow> int \<Rightarrow> dmx_rx \<Rightarrow> dmx_rx" where
  "rx_write i v rx =
     (case bytearray_set (rx_channels rx) i v of
        Inl e \<Rightarrow> rx
      | Inr bs \<Rightarrow> rx\<lparr>rx_channels := bs\<rparr>)"

definition rx_dma_byte :: "nat \<Rightarrow> 8 word \<Rightarrow> dmx_rx \<Rightarrow> dmx_rx" where
  "rx_dma_byte off b rx =
     (if off < length (rx_channels rx)
      then rx\<lparr>rx_channels := (rx_channels rx)[off := uint b]\<rparr>
      else rx)"

fun rx_exec :: "dmx_rx \<Rightarrow> rx_op \<Rightarrow> dmx_rx" where
  "rx_exec rx RxStart = DMX_RX_start rx"
| "rx_exec rx RxPause = DMX_RX_pause rx"
| "rx_exec rx RxIRQ = IRQ_from_PIO rx"
| "rx_exec rx (RxRead i) = rx"
| "rx_exec rx (RxWrite i v) = rx_write i v rx"
| "rx_exec rx RxStr = rx"
| "rx_exec rx (RxDmaByte off b) = rx_dma_byte off b rx"

definition rx_run :: "rx_op list \<Rightarrow> dmx_rx \<Rightarrow> dmx_rx" where
  "rx_run ops rx = foldl rx_exec rx ops"

section \<open>Properties\<close>

subsection \<open>Helper lemmas\<close>

lemma length_py_range: "length (py_range n) = nat n"
  by (simp add: py_range_def)

lemma zeros_eq_replicate: "map (\<lambda>_. 0::int) (py_range n) = replicate (nat n) 0"
  by (simp add: py_range_def map_replicate_const)

lemma py_index_in_range:
  "0 \<le> i \<Longrightarrow> i < int (length xs) \<Longrightarrow> py_index xs i = Inr (nat i)"
  by (simp add: py_index_def Let_def)

lemma py_index_negative:
  "i < 0 \<Longrightarrow> - int (length xs) \<le> i \<Longrightarrow> py_index xs i = Inr (nat (i + int (length xs)))"
  by (simp add: py_index_def Let_def)

lemma py_index_out_of_range:
  "int (length xs) \<le> i \<or> i < - int (length xs) \<Longrightarrow>
     py_index xs i = (if i < - (2 ^ 31) \<or> 2 ^ 31 \<le> i then Inl OverflowError else Inl IndexError)"
  by (auto simp: py_index_def Let_def)

lemma py_index_machine_word:
  "int (length xs) \<le> 2 ^ 31 \<Longrightarrow>
     py_index xs i =
       (if i < - (2 ^ 31) \<or> 2 ^ 31 \<le> i then Inl OverflowError
        else let n = int (length xs); j = (if i < 0 then i + n else i)
             in if j < 0 \<or> n \<le> j then Inl IndexError else Inr (nat j))"
  by (auto simp: py_index_def Let_def)

lemma py_index_bound: "py_index xs i = Inr j \<Longrightarrow> j < length xs"
  by (auto simp: py_index_def Let_def split: if_splits)

lemma bytearray_set_length: "bytearray_set bs i v = Inr bs' \<Longrightarrow> length bs' = length bs"
  by (auto simp: bytearray_set_def split: sum.splits)

lemma byte_ok_mod: "byte_ok (v mod 256)"
  by (simp add: byte_ok_def)

lemma byte_ok_uint: "byte_ok (uint (b :: 8 word))"
proof -
  have "uint b < 2 ^ LENGTH(8)" by (rule uint_bounded)
  then show ?thesis by (simp add: byte_ok_def)
qed

lemma bytes_ok_update: "bytes_ok bs \<Longrightarrow> byte_ok v \<Longrightarrow> bytes_ok (bs[j := v])"
  by (auto simp: bytes_ok_def list_all_iff dest: set_update_subset_insert [THEN subsetD])

lemma bytearray_set_bytes_ok:
  "bytes_ok bs \<Longrightarrow> bytearray_set bs i v = Inr bs' \<Longrightarrow> bytes_ok bs'"
  by (auto simp: bytearray_set_def bytes_ok_update byte_ok_mod split: sum.splits)

lemma bytearray_get_byte_ok: "bytes_ok bs \<Longrightarrow> bytearray_get bs i = Inr v \<Longrightarrow> byte_ok v"
  by (auto simp: bytearray_get_def bytes_ok_def list_all_length
           dest: py_index_bound split: sum.splits)

lemma bytes_ok_zeros: "bytes_ok (map (\<lambda>_. 0) (py_range n))"
  by (simp add: bytes_ok_def byte_ok_def list_all_iff)

subsection \<open>Construction of the transmitter\<close>

text \<open>
  Claim C5. For every universe size \<open>s\<close> from 1 to 512 the constructor of the
  transmitter returns an object whose buffer has exactly \<open>s + 1\<close> bytes, all zero; for
  every other \<open>s\<close> it raises the configuration error, which in dmx.py is
  \<^verbatim>\<open>ValueError\<close>, and there is no object.
\<close>

theorem tx_init_buffer:
  "(1 \<le> s \<and> s \<le> 512 \<longrightarrow>
      (\<exists>tx. DMX_TX_init a p s m d = Inr tx
          \<and> int (length (tx_channels tx)) = s + 1
          \<and> tx_channels tx = replicate (nat (s + 1)) 0))
   \<and> (s < 1 \<or> 512 < s \<longrightarrow> DMX_TX_init a p s m d = Inl ValueError)"
  by (simp add: DMX_TX_init_def Let_def zeros_eq_replicate)

theorem tx_init_buffer_witness:
  "tx_channels (projr (DMX_TX_init 0 28 5 0 0)) = [0, 0, 0, 0, 0, 0]
   \<and> DMX_TX_init 0 28 0 0 0 = Inl ValueError
   \<and> DMX_TX_init 0 28 513 0 0 = Inl ValueError"
  using tx_init_buffer [of 5 0 28 0 0] tx_init_buffer [of 0 0 28 0 0]
    tx_init_buffer [of 513 0 28 0 0]
  by (auto simp: numeral_eq_Suc)

subsection \<open>Construction of the receiver\<close>

text \<open>
  Claim C3. The claim asks that the constructor of the receiver rejects a number of
  channels outside 1 to 512 as the constructor of the transmitter does. It has no such
  check: for 600 channels it returns a receiver with a buffer of 601 bytes, and for 0
  channels one whose buffer is the start code alone, where the transmitter raises
  \<^verbatim>\<open>ValueError\<close>.
\<close>

theorem rx_init_accepts_any_size:
  "\<not> isl (DMX_RX_init 0 28 4 1 600)
   \<and> length (rx_channels (projr (DMX_RX_init 0 28 4 1 600))) = 601
   \<and> \<not> isl (DMX_RX_init 0 28 4 1 0)
   \<and> length (rx_channels (projr (DMX_RX_init 0 28 4 1 0))) = 1
   \<and> DMX_TX_init 0 28 600 0 0 = Inl ValueError
   \<and> DMX_TX_init 0 28 0 0 0 = Inl ValueError"
  by (simp add: DMX_RX_init_def DMX_TX_init_def Let_def length_py_range)

subsection \<open>Indexing the buffer\<close>




text \<open>
  Claim C8. For a buffer of \<open>s + 1\<close> bytes, an index \<open>i\<close> in \<open>0..s\<close> and a byte \<open>v\<close> in
  \<open>0..255\<close>, the write succeeds, a read of \<open>i\<close> then returns \<open>v\<close>, the length is
  the same and every other index of \<open>0..s\<close> reads as before.
\<close>

theorem write_then_read:
  "int (length bs) = s + 1 \<Longrightarrow> 0 \<le> i \<Longrightarrow> i \<le> s \<Longrightarrow> 0 \<le> v \<Longrightarrow> v \<le> 255 \<Longrightarrow>
     \<exists>bs'. bytearray_set bs i v = Inr bs'
        \<and> bytearray_get bs' i = Inr v
        \<and> length bs' = length bs
        \<and> (\<forall>j. 0 \<le> j \<and> j \<le> s \<and> j \<noteq> i \<longrightarrow> bytearray_get bs' j = bytearray_get bs j)"
  by (auto simp: bytearray_get_def bytearray_set_def py_index_def Let_def)

theorem write_then_read_witness:
  "bytearray_set [0, 10, 20, 30, 40, 50] 3 255 = Inr [0, 10, 20, 255, 40, 50]
   \<and> bytearray_get [0, 10, 20, 255, 40, 50] 3 = Inr 255
   \<and> bytearray_get [0, 10, 20, 255, 40, 50] 4 = bytearray_get [0, 10, 20, 30, 40, 50] 4"
  using write_then_read [of "[0, 10, 20, 30, 40, 50]" 5 3 255]
  by (auto simp: bytearray_set_def py_index_def)

subsection \<open>What the operations keep\<close>

lemma tx_exec_length: "length (tx_channels (tx_exec tx op)) = length (tx_channels tx)"
  by (cases op)
    (auto simp: DMX_TX_start_def DMX_TX_pause_def DMX_TX_restart_def after_def tx_write_def
      Let_def bytearray_set_length split: option.splits sum.splits)

lemma tx_exec_bytes_ok: "bytes_ok (tx_channels tx) \<Longrightarrow> bytes_ok (tx_channels (tx_exec tx op))"
  by (cases op)
    (auto simp: DMX_TX_start_def DMX_TX_pause_def DMX_TX_restart_def after_def tx_write_def
      Let_def bytearray_set_bytes_ok split: option.splits sum.splits)

lemma tx_run_length: "length (tx_channels (tx_run ops tx)) = length (tx_channels tx)"
  unfolding tx_run_def by (induction ops arbitrary: tx) (simp_all add: tx_exec_length)

lemma tx_run_bytes_ok: "bytes_ok (tx_channels tx) \<Longrightarrow> bytes_ok (tx_channels (tx_run ops tx))"
  unfolding tx_run_def by (induction ops arbitrary: tx) (simp_all add: tx_exec_bytes_ok)

lemma tx_exec_timer:
  "(tx_t (tx_exec tx op) = None) = (tx_t tx = None \<and> \<not> is_TxStart op)"
  by (cases op)
    (auto simp: DMX_TX_start_def DMX_TX_pause_def DMX_TX_restart_def after_def tx_write_def
      Let_def split: option.splits sum.splits)

lemma tx_run_timer:
  "(tx_t (tx_run ops tx) = None) = (tx_t tx = None \<and> never_started ops)"
  unfolding tx_run_def never_started_def
  by (induction ops arbitrary: tx) (auto simp: tx_exec_timer)

lemma rx_exec_length: "length (rx_channels (rx_exec rx op)) = length (rx_channels rx)"
  by (cases op)
    (auto simp: DMX_RX_start_def DMX_RX_pause_def IRQ_from_PIO_def rx_write_def rx_dma_byte_def
      Let_def bytearray_set_length split: sum.splits)

lemma rx_exec_bytes_ok: "bytes_ok (rx_channels rx) \<Longrightarrow> bytes_ok (rx_channels (rx_exec rx op))"
  by (cases op)
    (auto simp: DMX_RX_start_def DMX_RX_pause_def IRQ_from_PIO_def rx_write_def rx_dma_byte_def
      Let_def bytearray_set_bytes_ok bytes_ok_update byte_ok_uint split: sum.splits)

lemma rx_run_length: "length (rx_channels (rx_run ops rx)) = length (rx_channels rx)"
  unfolding rx_run_def by (induction ops arbitrary: rx) (simp_all add: rx_exec_length)

lemma rx_run_bytes_ok: "bytes_ok (rx_channels rx) \<Longrightarrow> bytes_ok (rx_channels (rx_run ops rx))"
  unfolding rx_run_def by (induction ops arbitrary: rx) (simp_all add: rx_exec_bytes_ok)

lemma rx_exec_frames:
  "rx_frames_received (rx_exec rx op) = rx_frames_received rx + (if op = RxIRQ then 1 else 0)"
  by (cases op)
    (auto simp: DMX_RX_start_def DMX_RX_pause_def IRQ_from_PIO_def rx_write_def rx_dma_byte_def
      Let_def split: sum.splits)

lemma rx_run_frames:
  "rx_frames_received (rx_run ops rx) = rx_frames_received rx + int (count_list ops RxIRQ)"
  unfolding rx_run_def by (induction ops arbitrary: rx) (simp_all add: rx_exec_frames)

lemma rx_run_append: "rx_run (ops @ ops') rx = rx_run ops' (rx_run ops rx)"
  by (simp add: rx_run_def)

lemma irq_frames: "rx_frames_received (IRQ_from_PIO rx) = rx_frames_received rx + 1"
  by (simp add: IRQ_from_PIO_def Let_def)

lemma irq_funpow_frames:
  "rx_frames_received ((IRQ_from_PIO ^^ k) rx) = rx_frames_received rx + int k"
  by (induction k) (simp_all add: irq_frames)

lemma rx_init_length:
  "DMX_RX_init a p m d s = Inr rx \<Longrightarrow> length (rx_channels rx) = nat (s + 1)"
  by (auto simp: DMX_RX_init_def Let_def length_py_range)

lemma rx_init_bytes_ok: "DMX_RX_init a p m d s = Inr rx \<Longrightarrow> bytes_ok (rx_channels rx)"
  by (auto simp: DMX_RX_init_def Let_def bytes_ok_zeros)

lemma tx_init_length:
  "DMX_TX_init a p s m d = Inr tx \<Longrightarrow> int (length (tx_channels tx)) = s + 1"
  by (auto simp: DMX_TX_init_def Let_def length_py_range split: if_splits)

lemma tx_init_bytes_ok: "DMX_TX_init a p s m d = Inr tx \<Longrightarrow> bytes_ok (tx_channels tx)"
  by (auto simp: DMX_TX_init_def Let_def bytes_ok_zeros split: if_splits)

lemma tx_init_timer: "DMX_TX_init a p s m d = Inr tx \<Longrightarrow> tx_t tx = None"
  by (auto simp: DMX_TX_init_def Let_def split: if_splits)

subsection \<open>The frame interrupt of the receiver\<close>

text \<open>
  Claim C1. On any receiver, the armed ones among them, one call of the handler
  \<^verbatim>\<open>IRQ_from_PIO\<close> programs the transfer engine once more, with the buffer's base as
  destination, the length of the buffer as count and the trigger set, and adds exactly
  1 to the frame counter; the buffer is not touched. For a receiver built for \<open>s\<close>
  channels, \<open>s\<close> from 1 to 512, and then used in any way, that count is \<open>s + 1\<close>. Over
  any sequence of operations the counter grows by the number of frame interrupts in
  it, so it never decreases from one prefix of the sequence to a longer one, and \<open>k\<close>
  interrupts in a row add \<open>k\<close>.
\<close>

theorem rx_irq_rearms_and_counts:
  "dma_write_addr (rx_dma (IRQ_from_PIO rx)) = rx_channels_addr rx
   \<and> dma_read_addr (rx_dma (IRQ_from_PIO rx)) = 0x50200027
   \<and> dma_count (rx_dma (IRQ_from_PIO rx)) = int (length (rx_channels rx))
   \<and> dma_trigger (rx_dma (IRQ_from_PIO rx))
   \<and> dma_arms (rx_dma (IRQ_from_PIO rx)) = Suc (dma_arms (rx_dma rx))
   \<and> rx_frames_received (IRQ_from_PIO rx) = rx_frames_received rx + 1
   \<and> rx_channels (IRQ_from_PIO rx) = rx_channels rx
   \<and> (1 \<le> s \<and> s \<le> 512 \<and> DMX_RX_init a p m d s = Inr rx0 \<longrightarrow>
        dma_count (rx_dma (IRQ_from_PIO (rx_run ops rx0))) = s + 1)
   \<and> rx_frames_received (rx_run ops rx) = rx_frames_received rx + int (count_list ops RxIRQ)
   \<and> rx_frames_received (rx_run ops rx) \<le> rx_frames_received (rx_run (ops @ ops') rx)
   \<and> rx_frames_received ((IRQ_from_PIO ^^ k) rx) = rx_frames_received rx + int k"
proof -
  have arm: "dma_count (rx_dma (IRQ_from_PIO r)) = int (length (rx_channels r))" for r
    by (simp add: IRQ_from_PIO_def SetChannelData_def Let_def)
  have built: "dma_count (rx_dma (IRQ_from_PIO (rx_run ops rx0))) = s + 1"
    if "1 \<le> s" and "DMX_RX_init a p m d s = Inr rx0"
    using that by (simp add: arm rx_run_length rx_init_length)
  have mono: "rx_frames_received (rx_run ops rx) \<le> rx_frames_received (rx_run (ops @ ops') rx)"
    by (simp add: rx_run_append rx_run_frames [of ops' "rx_run ops rx"])
  show ?thesis
    using built mono
    by (simp add: IRQ_from_PIO_def SetChannelData_def Let_def rx_run_frames irq_funpow_frames)
qed

theorem rx_irq_rearms_and_counts_witness:
  "dma_count (rx_dma (IRQ_from_PIO (rx_run [RxStart, RxIRQ, RxRead 2, RxIRQ]
       (projr (DMX_RX_init 4096 28 4 1 5))))) = 6
   \<and> dma_write_addr (rx_dma (IRQ_from_PIO (projr (DMX_RX_init 4096 28 4 1 5)))) = 4096
   \<and> rx_frames_received (rx_run [RxStart, RxIRQ, RxRead 2, RxIRQ, RxIRQ]
       (projr (DMX_RX_init 4096 28 4 1 5))) = 3"
  using rx_irq_rearms_and_counts [of "projr (DMX_RX_init 4096 28 4 1 5)" 5 4096 28 4 1
      "projr (DMX_RX_init 4096 28 4 1 5)" "[RxStart, RxIRQ, RxRead 2, RxIRQ]" "[RxIRQ]" 0]
  by (simp add: DMX_RX_init_def Let_def rx_run_def IRQ_from_PIO_def DMX_RX_start_def)

subsection \<open>Pausing and resuming the receiver\<close>

text \<open>
  Claim C7. On any receiver, \<^verbatim>\<open>pause()\<close> followed by \<^verbatim>\<open>start()\<close> leaves the frame
  counter at the value \<open>n\<close> it had, and \<open>k\<close> frame interrupts after that bring it to
  \<open>n + k\<close>. \<^verbatim>\<open>pause()\<close> changes nothing but the activity of the state machine, which it
  switches off: the transfer engine, the buffer and the counter stay as they were;
  \<^verbatim>\<open>start()\<close> switches it on again.
\<close>

theorem rx_pause_start_keeps_count:
  "rx_frames_received (DMX_RX_start (DMX_RX_pause rx)) = rx_frames_received rx
   \<and> rx_frames_received ((IRQ_from_PIO ^^ k) (DMX_RX_start (DMX_RX_pause rx)))
       = rx_frames_received rx + int k
   \<and> DMX_RX_pause rx = rx\<lparr>rx_sm := (rx_sm rx)\<lparr>sm_active := False\<rparr>\<rparr>
   \<and> \<not> sm_active (rx_sm (DMX_RX_pause rx))
   \<and> rx_dma (DMX_RX_pause rx) = rx_dma rx
   \<and> rx_channels (DMX_RX_pause rx) = rx_channels rx
   \<and> rx_frames_received (DMX_RX_pause rx) = rx_frames_received rx
   \<and> sm_active (rx_sm (DMX_RX_start (DMX_RX_pause rx)))"
  by (simp add: irq_funpow_frames DMX_RX_start_def DMX_RX_pause_def sm_set_active_def
      sm_restart_def sm_put_word_def Let_def)

theorem rx_pause_start_keeps_count_witness:
  "rx_frames_received
     (rx_run [RxStart, RxIRQ, RxIRQ, RxPause, RxStart] (projr (DMX_RX_init 4096 28 4 1 5))) = 2
   \<and> rx_frames_received
     (rx_run [RxStart, RxIRQ, RxIRQ, RxPause, RxStart, RxIRQ]
        (projr (DMX_RX_init 4096 28 4 1 5))) = 3"
  using rx_pause_start_keeps_count
    [of "rx_run [RxStart, RxIRQ, RxIRQ] (projr (DMX_RX_init 4096 28 4 1 5))" 1]
  by (simp add: rx_run_def DMX_RX_init_def Let_def IRQ_from_PIO_def DMX_RX_start_def
      DMX_RX_pause_def)

subsection \<open>The timer tick of the transmitter\<close>

lemma tx_restart_started:
  "tx_timer_count tx = Some n \<Longrightarrow>
     DMX_TX_restart tx =
       Inr (tx\<lparr>tx_sm := sm_restart (sm_set_active True (tx_sm tx)),
               tx_dma := SetChannelData (tx_channels_addr tx) 0x50200010
                           (int (length (tx_channels tx))) True (tx_dma tx),
               tx_timer_count := Some (n + 1)\<rparr>)"
  by (simp add: DMX_TX_restart_def Let_def)

lemma tx_write_keeps:
  "tx_timer_count (tx_write i v tx) = tx_timer_count tx
   \<and> length (tx_channels (tx_write i v tx)) = length (tx_channels tx)"
  by (auto simp: tx_write_def bytearray_set_length split: sum.splits)

lemma sm_txf_addr_first:
  "0 \<le> k \<Longrightarrow> k \<le> 7 \<Longrightarrow> (sm_txf_addr k = 0x50200010) = (k = 0)"
  by (auto simp: sm_txf_addr_def)

text \<open>
  Claim C2, as stated: each tick streams the buffer to the queue of the timing engine
  it restarts. A transmitter built on state machine 1 is started and ticked once. The
  tick succeeds, the machine it switches on and restarts is number 1, and the
  destination it programs is \<^verbatim>\<open>0x50200010\<close>, the queue of state machine 0 and the
  same address a transmitter on state machine 0 gets; the queue of state machine 1 is
  at \<^verbatim>\<open>0x50200014\<close>.
\<close>

theorem tx_tick_destination_counterexample:
  "tx_timer_count (tx_run [TxStart 20, TxTick] (projr (DMX_TX_init 4096 28 5 1 0))) = Some 1
   \<and> sm_id (tx_sm (tx_run [TxStart 20, TxTick] (projr (DMX_TX_init 4096 28 5 1 0)))) = 1
   \<and> sm_active (tx_sm (tx_run [TxStart 20, TxTick] (projr (DMX_TX_init 4096 28 5 1 0))))
   \<and> dma_write_addr (tx_dma (tx_run [TxStart 20, TxTick] (projr (DMX_TX_init 4096 28 5 1 0))))
       = 0x50200010
   \<and> sm_id (tx_sm (tx_run [TxStart 20, TxTick] (projr (DMX_TX_init 4096 28 5 0 0)))) = 0
   \<and> dma_write_addr (tx_dma (tx_run [TxStart 20, TxTick] (projr (DMX_TX_init 4096 28 5 0 0))))
       = 0x50200010
   \<and> sm_txf_addr 0 = 0x50200010
   \<and> sm_txf_addr 1 = 0x50200014
   \<and> dma_write_addr (tx_dma (tx_run [TxStart 20, TxTick] (projr (DMX_TX_init 4096 28 5 1 0))))
       \<noteq> sm_txf_addr 1"
  by (simp add: tx_run_def DMX_TX_init_def Let_def DMX_TX_start_def DMX_TX_restart_def
      after_def SetChannelData_def StateMachine_def sm_set_active_def sm_restart_def
      sm_txf_addr_def)

text \<open>
  Claim C2, amended. On a transmitter whose tick counter exists and holds \<open>n\<close>, that is
  after \<^verbatim>\<open>start\<close>, one call of the timer's callback \<^verbatim>\<open>restart\<close> raises nothing, switches
  the transmitter's state machine on and restarts it once, programs the transfer engine
  once with the buffer's base as source, the length of the buffer as count, the trigger
  set and the hard-coded address \<^verbatim>\<open>0x50200010\<close> as destination, sets the tick counter
  to \<open>n + 1\<close> and leaves the buffer as it was. That destination is the queue of state
  machine 0 whichever state machine the transmitter has; for a state machine numbered
  0 to 7 it is the queue of the transmitter's own machine exactly when that number is
  0. For a transmitter built for \<open>s\<close> channels and written to in any way, \<^verbatim>\<open>start\<close> and
  two ticks give a tick counter of 2, the buffer as it was before \<^verbatim>\<open>start\<close> and a
  transfer count of \<open>s + 1\<close>.
\<close>

theorem tx_tick_rearms_and_counts:
  "(tx_timer_count tx = Some n \<longrightarrow>
      (\<exists>tx'. DMX_TX_restart tx = Inr tx'
          \<and> sm_active (tx_sm tx')
          \<and> sm_restarts (tx_sm tx') = Suc (sm_restarts (tx_sm tx))
          \<and> sm_id (tx_sm tx') = sm_id (tx_sm tx)
          \<and> dma_read_addr (tx_dma tx') = tx_channels_addr tx
          \<and> dma_write_addr (tx_dma tx') = 0x50200010
          \<and> dma_write_addr (tx_dma tx') = sm_txf_addr 0
          \<and> (0 \<le> sm_id (tx_sm tx) \<and> sm_id (tx_sm tx) \<le> 7 \<longrightarrow>
               (dma_write_addr (tx_dma tx') = sm_txf_addr (sm_id (tx_sm tx')))
                 = (sm_id (tx_sm tx) = 0))
          \<and> dma_count (tx_dma tx') = int (length (tx_channels tx))
          \<and> dma_trigger (tx_dma tx')
          \<and> dma_arms (tx_dma tx') = Suc (dma_arms (tx_dma tx))
          \<and> tx_timer_count tx' = Some (n + 1)
          \<and> tx_channels tx' = tx_channels tx))
   \<and> (DMX_TX_init a p s m d = Inr tx0 \<longrightarrow>
      (\<exists>tx1 tx2.
          DMX_TX_restart (DMX_TX_start period (tx_run ws tx0)) = Inr tx1
          \<and> DMX_TX_restart tx1 = Inr tx2
          \<and> tx_timer_count tx2 = Some 2
          \<and> tx_channels tx2 = tx_channels (tx_run ws tx0)
          \<and> dma_count (tx_dma tx2) = s + 1))"
proof -
  have first: "sm_txf_addr 0 = 0x50200010"
    by (simp add: sm_txf_addr_def)
  have step: "\<exists>tx'. DMX_TX_restart tx = Inr tx'
          \<and> sm_active (tx_sm tx')
          \<and> sm_restarts (tx_sm tx') = Suc (sm_restarts (tx_sm tx))
          \<and> sm_id (tx_sm tx') = sm_id (tx_sm tx)
          \<and> dma_read_addr (tx_dma tx') = tx_channels_addr tx
          \<and> dma_write_addr (tx_dma tx') = 0x50200010
          \<and> dma_write_addr (tx_dma tx') = sm_txf_addr 0
          \<and> (0 \<le> sm_id (tx_sm tx) \<and> sm_id (tx_sm tx) \<le> 7 \<longrightarrow>
               (dma_write_addr (tx_dma tx') = sm_txf_addr (sm_id (tx_sm tx')))
                 = (sm_id (tx_sm tx) = 0))
          \<and> dma_count (tx_dma tx') = int (length (tx_channels tx))
          \<and> dma_trigger (tx_dma tx')
          \<and> dma_arms (tx_dma tx') = Suc (dma_arms (tx_dma tx))
          \<and> tx_timer_count tx' = Some (n + 1)
          \<and> tx_channels tx' = tx_channels tx"
    if "tx_timer_count tx = Some n" for tx n
    using sm_txf_addr_first [of "sm_id (tx_sm tx)"]
    by (auto simp: tx_restart_started [OF that] sm_restart_def sm_set_active_def
        SetChannelData_def first)
  have two: "\<exists>tx1 tx2.
          DMX_TX_restart (DMX_TX_start period (tx_run ws tx0)) = Inr tx1
          \<and> DMX_TX_restart tx1 = Inr tx2
          \<and> tx_timer_count tx2 = Some 2
          \<and> tx_channels tx2 = tx_channels (tx_run ws tx0)
          \<and> dma_count (tx_dma tx2) = s + 1"
    if init: "DMX_TX_init a p s m d = Inr tx0"
  proof -
    let ?t0 = "DMX_TX_start period (tx_run ws tx0)"
    have c0: "tx_timer_count ?t0 = Some 0" and ch0: "tx_channels ?t0 = tx_channels (tx_run ws tx0)"
      by (simp_all add: DMX_TX_start_def)
    from step [OF c0] obtain tx1 where
      r1: "DMX_TX_restart ?t0 = Inr tx1" and c1: "tx_timer_count tx1 = Some (0 + 1)"
      and ch1: "tx_channels tx1 = tx_channels ?t0"
      by blast
    from step [OF c1] obtain tx2 where
      r2: "DMX_TX_restart tx1 = Inr tx2" and c2: "tx_timer_count tx2 = Some (0 + 1 + 1)"
      and ch2: "tx_channels tx2 = tx_channels tx1"
      and n2: "dma_count (tx_dma tx2) = int (length (tx_channels tx1))"
      by blast
    have "int (length (tx_channels tx1)) = s + 1"
      by (simp add: ch1 ch0 tx_run_length tx_init_length [OF init])
    with r1 r2 c2 ch2 ch1 ch0 n2 show ?thesis
      by simp
  qed
  from step two show ?thesis
    by blast
qed

theorem tx_tick_rearms_and_counts_witness:
  "tx_timer_count (tx_run
      [TxWrite 1 10, TxWrite 2 20, TxWrite 3 30, TxWrite 4 40, TxWrite 5 50,
       TxStart 20, TxTick, TxTick] (projr (DMX_TX_init 4096 28 5 0 0))) = Some 2
   \<and> tx_channels (tx_run
      [TxWrite 1 10, TxWrite 2 20, TxWrite 3 30, TxWrite 4 40, TxWrite 5 50,
       TxStart 20, TxTick, TxTick] (projr (DMX_TX_init 4096 28 5 0 0)))
       = [0, 10, 20, 30, 40, 50]
   \<and> dma_count (tx_dma (tx_run
      [TxWrite 1 10, TxWrite 2 20, TxWrite 3 30, TxWrite 4 40, TxWrite 5 50,
       TxStart 20, TxTick, TxTick] (projr (DMX_TX_init 4096 28 5 0 0)))) = 6
   \<and> dma_write_addr (tx_dma (tx_run
      [TxWrite 1 10, TxWrite 2 20, TxWrite 3 30, TxWrite 4 40, TxWrite 5 50,
       TxStart 20, TxTick] (projr (DMX_TX_init 4096 28 5 0 0))))
       = sm_txf_addr (sm_id (tx_sm (projr (DMX_TX_init 4096 28 5 0 0))))"
  using tx_tick_rearms_and_counts
    [of "DMX_TX_start 20 (tx_run
          [TxWrite 1 10, TxWrite 2 20, TxWrite 3 30, TxWrite 4 40, TxWrite 5 50]
          (projr (DMX_TX_init 4096 28 5 0 0)))" 0
        4096 28 5 0 0 "projr (DMX_TX_init 4096 28 5 0 0)" 20
        "[TxWrite 1 10, TxWrite 2 20, TxWrite 3 30, TxWrite 4 40, TxWrite 5 50]"]
  by (simp add: tx_run_def DMX_TX_init_def Let_def py_range_def numeral_eq_Suc tx_write_def
      bytearray_set_def py_index_def DMX_TX_start_def DMX_TX_restart_def after_def
      SetChannelData_def StateMachine_def sm_txf_addr_def)

subsection \<open>Pausing a transmitter that was never started\<close>

text \<open>
  Claim C10. On a transmitter whose timer attribute does not exist, \<^verbatim>\<open>pause()\<close>
  raises \<^verbatim>\<open>AttributeError\<close> and changes nothing. A transmitter just built has no
  timer, and \<^verbatim>\<open>start\<close> is the only operation that creates one: after construction and
  any sequence of operations, \<^verbatim>\<open>pause()\<close> raises exactly when no \<^verbatim>\<open>start\<close> is among
  them, and it succeeds right after any \<^verbatim>\<open>start\<close>.
\<close>

theorem tx_pause_before_start:
  "(tx_t tx = None \<longrightarrow> DMX_TX_pause tx = Inl (AttributeError, tx))
   \<and> (DMX_TX_init a p s m d = Inr tx0 \<longrightarrow>
        DMX_TX_pause tx0 = Inl (AttributeError, tx0)
        \<and> (never_started ops \<longrightarrow>
             DMX_TX_pause (tx_run ops tx0) = Inl (AttributeError, tx_run ops tx0))
        \<and> (\<not> never_started ops \<longrightarrow> \<not> isl (DMX_TX_pause (tx_run ops tx0))))
   \<and> \<not> isl (DMX_TX_pause (DMX_TX_start period tx))"
proof -
  have none: "DMX_TX_pause t = Inl (AttributeError, t)" if "tx_t t = None" for t
    using that by (simp add: DMX_TX_pause_def)
  have some: "\<not> isl (DMX_TX_pause t)" if "tx_t t \<noteq> None" for t
    using that by (auto simp: DMX_TX_pause_def split: option.splits)
  have built: "(tx_t (tx_run ops tx0) = None) = never_started ops"
    if "DMX_TX_init a p s m d = Inr tx0"
    by (simp add: tx_run_timer tx_init_timer [OF that])
  have started: "tx_t (DMX_TX_start period tx) \<noteq> None"
    by (simp add: DMX_TX_start_def)
  show ?thesis
    using none some built started tx_init_timer by blast
qed

theorem tx_pause_before_start_witness:
  "DMX_TX_pause (projr (DMX_TX_init 4096 28 5 0 0))
     = Inl (AttributeError, projr (DMX_TX_init 4096 28 5 0 0))
   \<and> isl (DMX_TX_pause (tx_run [TxWrite 1 10, TxTick, TxRead 1]
        (projr (DMX_TX_init 4096 28 5 0 0))))
   \<and> \<not> isl (DMX_TX_pause (tx_run [TxWrite 1 10, TxStart 50, TxTick]
        (projr (DMX_TX_init 4096 28 5 0 0))))"
  using tx_pause_before_start
    [of "projr (DMX_TX_init 4096 28 5 0 0)" 4096 28 5 0 0 "projr (DMX_TX_init 4096 28 5 0 0)"
        "[TxWrite 1 10, TxTick, TxRead 1]" 50]
    tx_pause_before_start
    [of "projr (DMX_TX_init 4096 28 5 0 0)" 4096 28 5 0 0 "projr (DMX_TX_init 4096 28 5 0 0)"
        "[TxWrite 1 10, TxStart 50, TxTick]" 50]
  by (simp add: DMX_TX_init_def Let_def never_started_def)

subsection \<open>The invariant of the buffer\<close>

text \<open>
  Claim C6. Every single operation of either driver, on any object, keeps the length
  of the buffer, and keeps every byte in \<open>0..255\<close> if they all were. A transmitter
  built for \<open>s\<close> channels, and a receiver built for \<open>n\<close> channels with \<open>n\<close> from 1 to
  512, therefore have after any sequence of operations a buffer of exactly \<open>s + 1\<close>
  (\<open>n + 1\<close>) bytes, all in \<open>0..255\<close>, and whatever a read returns there is in
  \<open>0..255\<close>. The sequences of the receiver include the single byte stores of the
  transfer engine, so the state between two of them, a buffer half old and half new,
  is among the states the statement covers.
\<close>

theorem buffer_invariant:
  "length (tx_channels (tx_exec tx1 op)) = length (tx_channels tx1)
   \<and> (bytes_ok (tx_channels tx1) \<longrightarrow> bytes_ok (tx_channels (tx_exec tx1 op)))
   \<and> length (rx_channels (rx_exec rx1 rop)) = length (rx_channels rx1)
   \<and> (bytes_ok (rx_channels rx1) \<longrightarrow> bytes_ok (rx_channels (rx_exec rx1 rop)))
   \<and> (DMX_TX_init a p s m d = Inr tx \<longrightarrow>
        int (length (tx_channels (tx_run ops tx))) = s + 1
        \<and> bytes_ok (tx_channels (tx_run ops tx))
        \<and> (bytearray_get (tx_channels (tx_run ops tx)) i = Inr v \<longrightarrow> 0 \<le> v \<and> v \<le> 255))
   \<and> (1 \<le> n \<and> n \<le> 512 \<and> DMX_RX_init a' p' m' d' n = Inr rx \<longrightarrow>
        int (length (rx_channels (rx_run rops rx))) = n + 1
        \<and> bytes_ok (rx_channels (rx_run rops rx))
        \<and> (bytearray_get (rx_channels (rx_run rops rx)) j = Inr w \<longrightarrow> 0 \<le> w \<and> w \<le> 255))"
proof -
  have tx_part: "int (length (tx_channels (tx_run ops tx))) = s + 1
        \<and> bytes_ok (tx_channels (tx_run ops tx))
        \<and> (bytearray_get (tx_channels (tx_run ops tx)) i = Inr v \<longrightarrow> 0 \<le> v \<and> v \<le> 255)"
    if init: "DMX_TX_init a p s m d = Inr tx"
  proof -
    have ok: "bytes_ok (tx_channels (tx_run ops tx))"
      by (rule tx_run_bytes_ok [OF tx_init_bytes_ok [OF init]])
    have len: "int (length (tx_channels (tx_run ops tx))) = s + 1"
      by (simp add: tx_run_length tx_init_length [OF init])
    from ok len show ?thesis
      using bytearray_get_byte_ok [of "tx_channels (tx_run ops tx)" i v]
      by (auto simp: byte_ok_def)
  qed
  have rx_part: "int (length (rx_channels (rx_run rops rx))) = n + 1
        \<and> bytes_ok (rx_channels (rx_run rops rx))
        \<and> (bytearray_get (rx_channels (rx_run rops rx)) j = Inr w \<longrightarrow> 0 \<le> w \<and> w \<le> 255)"
    if size: "1 \<le> n" and init: "DMX_RX_init a' p' m' d' n = Inr rx"
  proof -
    have ok: "bytes_ok (rx_channels (rx_run rops rx))"
      by (rule rx_run_bytes_ok [OF rx_init_bytes_ok [OF init]])
    have len: "int (length (rx_channels (rx_run rops rx))) = n + 1"
      using size by (simp add: rx_run_length rx_init_length [OF init])
    from ok len show ?thesis
      using bytearray_get_byte_ok [of "rx_channels (rx_run rops rx)" j w]
      by (auto simp: byte_ok_def)
  qed
  show ?thesis
    using tx_part rx_part
    by (simp add: tx_exec_length rx_exec_length tx_exec_bytes_ok rx_exec_bytes_ok)
qed

theorem buffer_invariant_witness:
  "length (tx_channels (tx_run [TxWrite 1 300, TxStart 20, TxTick, TxWrite (- 1) (- 1), TxPause]
      (projr (DMX_TX_init 4096 28 5 0 0)))) = 6
   \<and> bytes_ok (tx_channels (tx_run [TxWrite 1 300, TxStart 20, TxTick, TxWrite (- 1) (- 1), TxPause]
      (projr (DMX_TX_init 4096 28 5 0 0))))
   \<and> length (rx_channels (rx_run [RxStart, RxDmaByte 0 0, RxDmaByte 1 200, RxRead 2, RxDmaByte 9 7]
      (projr (DMX_RX_init 4096 28 4 1 5)))) = 6
   \<and> bytes_ok (rx_channels (rx_run [RxStart, RxDmaByte 0 0, RxDmaByte 1 200, RxRead 2, RxDmaByte 9 7]
      (projr (DMX_RX_init 4096 28 4 1 5))))
   \<and> bytearray_get (rx_channels (rx_run [RxStart, RxDmaByte 0 0, RxDmaByte 1 200]
      (projr (DMX_RX_init 4096 28 4 1 5)))) 1 = Inr 200"
proof -
  have tx: "DMX_TX_init 4096 28 5 0 0 = Inr (projr (DMX_TX_init 4096 28 5 0 0))"
    by (simp add: DMX_TX_init_def Let_def)
  have rx: "DMX_RX_init 4096 28 4 1 5 = Inr (projr (DMX_RX_init 4096 28 4 1 5))"
    by (simp add: DMX_RX_init_def Let_def)
  have get: "bytearray_get (rx_channels (rx_run [RxStart, RxDmaByte 0 0, RxDmaByte 1 200]
      (projr (DMX_RX_init 4096 28 4 1 5)))) 1 = Inr 200"
    by code_simp
  show ?thesis
    using tx rx get
      buffer_invariant [of "projr (DMX_TX_init 4096 28 5 0 0)" TxTick
        "projr (DMX_RX_init 4096 28 4 1 5)" RxIRQ 4096 28 5 0 0
        "projr (DMX_TX_init 4096 28 5 0 0)"
        "[TxWrite 1 300, TxStart 20, TxTick, TxWrite (- 1) (- 1), TxPause]" 0 0
        5 4096 28 4 1 "projr (DMX_RX_init 4096 28 4 1 5)"
        "[RxStart, RxDmaByte 0 0, RxDmaByte 1 200, RxRead 2, RxDmaByte 9 7]" 0 0]
    by simp
qed

subsection \<open>The diagnostic dump\<close>

text \<open>
  For a channel other than 0 each of the two loops only appends to the result, and what
  it appends does not depend on the result so far.
\<close>

lemma tx_str_step_append:
  "chan \<noteq> 0 \<Longrightarrow> tx_str_step chs r chan = r @ tx_str_step chs [] chan"
  by (simp add: tx_str_step_def Let_def)

lemma rx_str_step_append:
  "chan \<noteq> 0 \<Longrightarrow> rx_str_step chs r chan = r @ rx_str_step chs [] chan"
  by (simp add: rx_str_step_def Let_def)

lemma tx_str_fold_append:
  "0 \<notin> set cs \<Longrightarrow> foldl (tx_str_step chs) r cs = r @ foldl (tx_str_step chs) [] cs"
proof (induction cs arbitrary: r)
  case Nil
  then show ?case by simp
next
  case (Cons c cs)
  then have c: "c \<noteq> 0" and cs: "0 \<notin> set cs" by auto
  have "foldl (tx_str_step chs) r (c # cs)
      = tx_str_step chs r c @ foldl (tx_str_step chs) [] cs"
    using Cons.IH [OF cs, of "tx_str_step chs r c"] by simp
  also have "\<dots> = r @ tx_str_step chs [] c @ foldl (tx_str_step chs) [] cs"
    by (simp add: tx_str_step_append [OF c, of chs r])
  also have "\<dots> = r @ foldl (tx_str_step chs) [] (c # cs)"
    using Cons.IH [OF cs, of "tx_str_step chs [] c"] by simp
  finally show ?case .
qed

lemma rx_str_fold_append:
  "0 \<notin> set cs \<Longrightarrow> foldl (rx_str_step chs) r cs = r @ foldl (rx_str_step chs) [] cs"
proof (induction cs arbitrary: r)
  case Nil
  then show ?case by simp
next
  case (Cons c cs)
  then have c: "c \<noteq> 0" and cs: "0 \<notin> set cs" by auto
  have "foldl (rx_str_step chs) r (c # cs)
      = rx_str_step chs r c @ foldl (rx_str_step chs) [] cs"
    using Cons.IH [OF cs, of "rx_str_step chs r c"] by simp
  also have "\<dots> = r @ rx_str_step chs [] c @ foldl (rx_str_step chs) [] cs"
    by (simp add: rx_str_step_append [OF c, of chs r])
  also have "\<dots> = r @ foldl (rx_str_step chs) [] (c # cs)"
    using Cons.IH [OF cs, of "rx_str_step chs [] c"] by simp
  finally show ?case .
qed

text \<open>
  The transmitter writes one blank before each channel value and the receiver none, so
  on equal buffers the dump of the transmitter is longer by one character for each
  channel.
\<close>

lemma str_step_length:
  "chan \<noteq> 0 \<Longrightarrow> length (tx_str_step chs [] chan) = Suc (length (rx_str_step chs [] chan))"
  by (simp add: tx_str_step_def rx_str_step_def Let_def)

lemma str_fold_length:
  "0 \<notin> set cs \<Longrightarrow>
     length (foldl (tx_str_step chs) [] cs) = length (foldl (rx_str_step chs) [] cs) + length cs"
proof (induction cs)
  case Nil
  then show ?case by simp
next
  case (Cons c cs)
  then have c: "c \<noteq> 0" and cs: "0 \<notin> set cs" by auto
  have t: "foldl (tx_str_step chs) [] (c # cs)
      = tx_str_step chs [] c @ foldl (tx_str_step chs) [] cs"
    using tx_str_fold_append [OF cs, of chs "tx_str_step chs [] c"] by simp
  have r: "foldl (rx_str_step chs) [] (c # cs)
      = rx_str_step chs [] c @ foldl (rx_str_step chs) [] cs"
    using rx_str_fold_append [OF cs, of chs "rx_str_step chs [] c"] by simp
  show ?case
    unfolding t r using Cons.IH [OF cs] str_step_length [OF c, of chs] by simp
qed

lemma str_step_start: "tx_str_step chs [] 0 = rx_str_step chs [] 0"
  by (simp add: tx_str_step_def rx_str_step_def Let_def)

lemma upt_from_one: "0 \<notin> set [Suc 0..<n]"
  by simp

lemma dump_length:
  assumes same: "tx_channels tx = rx_channels rx" and ne: "tx_channels tx \<noteq> []"
  shows "length (DMX_TX_str tx) = length (DMX_RX_str rx) + (length (tx_channels tx) - 1)"
proof -
  let ?chs = "tx_channels tx"
  let ?n = "length ?chs"
  from ne have n: "[0..<?n] = 0 # [Suc 0..<?n]"
    by (simp add: upt_conv_Cons)
  have t: "foldl (tx_str_step ?chs) [] [0..<?n]
      = tx_str_step ?chs [] 0 @ foldl (tx_str_step ?chs) [] [Suc 0..<?n]"
    unfolding n using tx_str_fold_append [OF upt_from_one, of ?chs "tx_str_step ?chs [] 0" ?n]
    by simp
  have r: "foldl (rx_str_step ?chs) [] [0..<?n]
      = rx_str_step ?chs [] 0 @ foldl (rx_str_step ?chs) [] [Suc 0..<?n]"
    unfolding n using rx_str_fold_append [OF upt_from_one, of ?chs "rx_str_step ?chs [] 0" ?n]
    by simp
  have "length (foldl (tx_str_step ?chs) [] [0..<?n])
      = length (foldl (rx_str_step ?chs) [] [0..<?n]) + (?n - 1)"
    unfolding t r using str_fold_length [OF upt_from_one, of ?chs ?n]
    by (simp add: str_step_start)
  then show ?thesis
    by (simp add: DMX_TX_str_def DMX_RX_str_def same [symmetric])
qed

text \<open>The dump of a buffer of two bytes or more starts with what channels 0 and 1 give.\<close>

lemma tx_dump_prefix:
  assumes "2 \<le> length (tx_channels tx)"
  shows "\<exists>rest. DMX_TX_str tx
      = tx_str_step (tx_channels tx) (tx_str_step (tx_channels tx) [] 0) (Suc 0) @ rest"
proof -
  let ?chs = "tx_channels tx"
  let ?n = "length ?chs"
  have a: "[0..<?n] = 0 # [Suc 0..<?n]"
    by (rule upt_conv_Cons) (use assms in linarith)
  have b: "[Suc 0..<?n] = Suc 0 # [Suc (Suc 0)..<?n]"
    by (rule upt_conv_Cons) (use assms in linarith)
  have n: "[0..<?n] = 0 # Suc 0 # [Suc (Suc 0)..<?n]"
    by (simp only: a b)
  have "0 \<notin> set [Suc (Suc 0)..<?n]" by simp
  from tx_str_fold_append [OF this, of ?chs "tx_str_step ?chs (tx_str_step ?chs [] 0) (Suc 0)"]
  show ?thesis
    unfolding DMX_TX_str_def n by simp
qed

lemma rx_dump_prefix:
  assumes "2 \<le> length (rx_channels rx)"
  shows "\<exists>rest. DMX_RX_str rx
      = rx_str_step (rx_channels rx) (rx_str_step (rx_channels rx) [] 0) (Suc 0) @ rest"
proof -
  let ?chs = "rx_channels rx"
  let ?n = "length ?chs"
  have a: "[0..<?n] = 0 # [Suc 0..<?n]"
    by (rule upt_conv_Cons) (use assms in linarith)
  have b: "[Suc 0..<?n] = Suc 0 # [Suc (Suc 0)..<?n]"
    by (rule upt_conv_Cons) (use assms in linarith)
  have n: "[0..<?n] = 0 # Suc 0 # [Suc (Suc 0)..<?n]"
    by (simp only: a b)
  have "0 \<notin> set [Suc (Suc 0)..<?n]" by simp
  from rx_str_fold_append [OF this, of ?chs "rx_str_step ?chs (rx_str_step ?chs [] 0) (Suc 0)"]
  show ?thesis
    unfolding DMX_RX_str_def n by simp
qed

lemma tx_fresh_channels:
  "tx_channels (projr (DMX_TX_init 0 28 512 0 0)) = replicate 513 0"
  by (simp add: DMX_TX_init_def Let_def zeros_eq_replicate)

lemma rx_fresh_channels:
  "rx_channels (projr (DMX_RX_init 0 28 4 1 512)) = replicate 513 0"
  by (simp add: DMX_RX_init_def Let_def zeros_eq_replicate)

lemma tx_fresh_head:
  "tx_str_step (replicate 513 0) (tx_str_step (replicate 513 0) [] 0) (Suc 0)
     = ''Start code: 0'' @ nl @ nl @ ''001:     0''"
  by (simp add: tx_str_step_def Let_def fmt_03_def fmt_3_def str_int_def nl_def numeral_2_eq_2)

lemma rx_fresh_head:
  "rx_str_step (replicate 513 0) (rx_str_step (replicate 513 0) [] 0) (Suc 0)
     = ''Start code: 0'' @ nl @ nl @ ''001:    0''"
  by (simp add: rx_str_step_def Let_def fmt_03_def fmt_3_def str_int_def nl_def numeral_2_eq_2)

text \<open>
  Claim C9. On a freshly created universe of 512 channels both dumps begin with
  \<open>Start code: 0\<close>, a blank line and the row of channel \<open>001\<close>. The claim asks that
  transmitter and receiver give the same layout for equal buffers, and they do not:
  the transmitter writes a blank before each value and the receiver writes none. The
  two buffers are equal, the dump of the transmitter is 512 characters longer, and the
  two differ from the first channel value on. With the channels 255, 255 and 7 the
  receiver prints \<open>255255  7\<close>, the values run together, where the transmitter prints
  \<open>255 255   7\<close>.
\<close>

theorem dump_layouts_differ:
  "tx_channels (projr (DMX_TX_init 0 28 512 0 0)) = rx_channels (projr (DMX_RX_init 0 28 4 1 512))
   \<and> take 25 (DMX_TX_str (projr (DMX_TX_init 0 28 512 0 0)))
       = ''Start code: 0'' @ nl @ nl @ ''001:     0''
   \<and> take 24 (DMX_RX_str (projr (DMX_RX_init 0 28 4 1 512)))
       = ''Start code: 0'' @ nl @ nl @ ''001:    0''
   \<and> length (DMX_TX_str (projr (DMX_TX_init 0 28 512 0 0)))
       = length (DMX_RX_str (projr (DMX_RX_init 0 28 4 1 512))) + 512
   \<and> DMX_TX_str (projr (DMX_TX_init 0 28 512 0 0)) \<noteq> DMX_RX_str (projr (DMX_RX_init 0 28 4 1 512))
   \<and> DMX_TX_str (tx_run [TxWrite 1 255, TxWrite 2 255, TxWrite 3 7]
         (projr (DMX_TX_init 0 28 3 0 0)))
       = ''Start code: 0'' @ nl @ nl @ ''001:   255 255   7'' @ nl
   \<and> DMX_RX_str (rx_run [RxWrite 1 255, RxWrite 2 255, RxWrite 3 7]
         (projr (DMX_RX_init 0 28 4 1 3)))
       = ''Start code: 0'' @ nl @ nl @ ''001:  255255  7'' @ nl"
proof -
  let ?tx = "projr (DMX_TX_init 0 28 512 0 0)"
  let ?rx = "projr (DMX_RX_init 0 28 4 1 512)"
  have same: "tx_channels ?tx = rx_channels ?rx"
    by (simp only: tx_fresh_channels rx_fresh_channels)
  have ne: "tx_channels ?tx \<noteq> []"
    by (simp add: tx_fresh_channels)
  have len: "length (DMX_TX_str ?tx) = length (DMX_RX_str ?rx) + 512"
    using dump_length [OF same ne] by (simp add: tx_fresh_channels)
  then have differ: "DMX_TX_str ?tx \<noteq> DMX_RX_str ?rx"
    by auto
  have "2 \<le> length (tx_channels ?tx)"
    by (simp add: tx_fresh_channels)
  from tx_dump_prefix [OF this] obtain trest where
    "DMX_TX_str ?tx = (''Start code: 0'' @ nl @ nl @ ''001:     0'') @ trest"
    by (auto simp: tx_fresh_channels tx_fresh_head)
  then have thead: "take 25 (DMX_TX_str ?tx) = ''Start code: 0'' @ nl @ nl @ ''001:     0''"
    by (simp add: nl_def)
  have "2 \<le> length (rx_channels ?rx)"
    by (simp add: rx_fresh_channels)
  from rx_dump_prefix [OF this] obtain rrest where
    "DMX_RX_str ?rx = (''Start code: 0'' @ nl @ nl @ ''001:    0'') @ rrest"
    by (auto simp: rx_fresh_channels rx_fresh_head)
  then have rhead: "take 24 (DMX_RX_str ?rx) = ''Start code: 0'' @ nl @ nl @ ''001:    0''"
    by (simp add: nl_def)
  have tsmall: "DMX_TX_str (tx_run [TxWrite 1 255, TxWrite 2 255, TxWrite 3 7]
         (projr (DMX_TX_init 0 28 3 0 0)))
       = ''Start code: 0'' @ nl @ nl @ ''001:   255 255   7'' @ nl"
    by code_simp
  have rsmall: "DMX_RX_str (rx_run [RxWrite 1 255, RxWrite 2 255, RxWrite 3 7]
         (projr (DMX_RX_init 0 28 4 1 3)))
       = ''Start code: 0'' @ nl @ nl @ ''001:  255255  7'' @ nl"
    by code_simp
  from same thead rhead len differ tsmall rsmall show ?thesis
    by (intro conjI)
qed

end
